theory Spec2Isabelle
  imports Main "HOL-Library.Sublist" "HOL-Library.Word"
begin

section \<open>Go strings, runes and formatting\<close>

text \<open>
  A Go \<^verbatim>\<open>string\<close> is a sequence of bytes: \<^typ>\<open>string\<close>. A \<^verbatim>\<open>rune\<close> is a code
  point; the runes a \<^verbatim>\<open>for _, r := range s\<close> loop reads are the UTF-8 decoding of the
  bytes, one \<^verbatim>\<open>RuneError\<close> (U+FFFD) for every byte that starts no valid encoding.
\<close>

type_synonym rune = nat

definition RuneError :: rune where
  "RuneError = 0xFFFD"

definition utf8_size :: "nat \<Rightarrow> nat" where
  \<comment> \<open>length of the encoding that starts with byte \<open>x\<close>; 0 when no encoding starts with it\<close>
  "utf8_size x =
     (if x < 0x80 then 1 else if x < 0xC2 then 0 else if x < 0xE0 then 2
      else if x < 0xF0 then 3 else if x < 0xF5 then 4 else 0)"

definition accept_lo :: "nat \<Rightarrow> nat" where
  "accept_lo x = (if x = 0xE0 then 0xA0 else if x = 0xF0 then 0x90 else 0x80)"

definition accept_hi :: "nat \<Rightarrow> nat" where
  "accept_hi x = (if x = 0xED then 0x9F else if x = 0xF4 then 0x8F else 0xBF)"

fun DecodeRune :: "nat list \<Rightarrow> rune \<times> nat" where
  "DecodeRune [] = (RuneError, 0)"
| "DecodeRune (x # bs) =
     (let sz = utf8_size x in
      if sz = 1 then (x, 1)
      else if sz = 0 \<or> length (x # bs) < sz then (RuneError, 1)
      else let b1 = bs ! 0 in
      if b1 < accept_lo x \<or> accept_hi x < b1 then (RuneError, 1)
      else if sz \<le> 2 then ((x mod 32) * 64 + b1 mod 64, 2)
      else let b2 = bs ! 1 in
      if b2 < 0x80 \<or> 0xBF < b2 then (RuneError, 1)
      else if sz \<le> 3 then ((x mod 16) * 4096 + (b1 mod 64) * 64 + b2 mod 64, 3)
      else let b3 = bs ! 2 in
      if b3 < 0x80 \<or> 0xBF < b3 then (RuneError, 1)
      else ((x mod 8) * 262144 + (b1 mod 64) * 4096 + (b2 mod 64) * 64 + b3 mod 64, 4))"

declare DecodeRune.simps(2) [simp del]

function range_runes :: "string \<Rightarrow> rune list" where
  "range_runes [] = []"
| "range_runes (c # cs) =
     (case DecodeRune (map of_char (c # cs)) of
        (r, w) \<Rightarrow> r # range_runes (drop (w - 1) cs))"
  by pat_completeness auto
termination
  by (relation "measure length") auto

declare range_runes.simps(2) [simp del]

definition unicode_ToLower :: "(rune \<Rightarrow> rune) \<Rightarrow> rune \<Rightarrow> rune" where
  \<comment> \<open>\<^verbatim>\<open>unicode.ToLower\<close>: the ASCII range is computed, the rest is looked up in the case
      tables of Go's \<^verbatim>\<open>unicode\<close> package, which the first argument stands for\<close>
  "unicode_ToLower tables r =
     (if r \<le> 0x7F then (if 0x41 \<le> r \<and> r \<le> 0x5A then r + 0x20 else r)
      else tables r)"

definition ToLower_runes :: "(rune \<Rightarrow> rune) \<Rightarrow> string \<Rightarrow> rune list" where
  \<comment> \<open>the runes of \<^verbatim>\<open>strings.ToLower(str)\<close>, as the \<^verbatim>\<open>range\<close> loop reads them\<close>
  "ToLower_runes tables str = map (unicode_ToLower tables) (range_runes str)"

fun digits10 :: "nat \<Rightarrow> string" where
  "digits10 n =
     (if n < 10 then [char_of (48 + n)]
      else digits10 (n div 10) @ [char_of (48 + n mod 10)])"

declare digits10.simps [simp del]

definition fmt_d :: "int \<Rightarrow> string" where
  \<comment> \<open>the verb \<^verbatim>\<open>%d\<close> of \<^verbatim>\<open>fmt.Sprintf\<close>\<close>
  "fmt_d i = (if i < 0 then CHR ''-'' # digits10 (nat (- i)) else digits10 (nat i))"

section \<open>slugify\<close>

fun slugify_loop :: "rune list \<Rightarrow> string \<Rightarrow> string" where
  "slugify_loop [] buf = buf"
| "slugify_loop (r # rs) buf =
     (if (0x61 \<le> r \<and> r \<le> 0x7A) \<or> (0x30 \<le> r \<and> r \<le> 0x39)
        then slugify_loop rs (buf @ [char_of r])
      else if r = 0x20 \<or> r = 0x5F \<or> r = 0x2D
        then slugify_loop rs (buf @ ''_'')
      else slugify_loop rs buf)"

definition slugify :: "(rune \<Rightarrow> rune) \<Rightarrow> string \<Rightarrow> string" where
  "slugify tables str = slugify_loop (ToLower_runes tables str) []"

section \<open>Errors, the file system and the console\<close>

text \<open>
  A Go \<^verbatim>\<open>error\<close> is represented by its message and by whether \<^verbatim>\<open>os.IsNotExist\<close>
  holds for it. \<^verbatim>\<open>fmt.Errorf\<close> with \<^verbatim>\<open>%s\<close> verbs builds a plain error from the
  formatted text.
\<close>

datatype error = ErrNotExist string | Err string

fun Error :: "error \<Rightarrow> string" where
  "Error (ErrNotExist msg) = msg"
| "Error (Err msg) = msg"

fun IsNotExist :: "error \<Rightarrow> bool" where
  "IsNotExist (ErrNotExist msg) = True"
| "IsNotExist (Err msg) = False"

datatype fs_event =
    Opened string
  | Wrote string string
  | WriteFailed string string

datatype color_attr = FgGreen | FgRed | FgYellow

datatype printed = Println string | ColorPrintf color_attr string

text \<open>
  The state the generator acts on: the files on disk (path to content), the file
  operations done so far in their order, what was printed, and how often the clock
  has been read.
\<close>

record world =
  files :: "string \<rightharpoonup> string"
  fs_log :: "fs_event list"
  stdout :: "printed list"
  clock_reads :: nat

text \<open>
  Of a \<^verbatim>\<open>time.Time\<close> the generator reads only \<^verbatim>\<open>Unix()\<close>, an \<^verbatim>\<open>int64\<close>. A
  \<^verbatim>\<open>Timestamper\<close> takes no argument and returns the current time: it is given by the
  sequence of its results, and the world counts how many have been read.
\<close>

datatype Time = Time (Unix: "64 word")

type_synonym Timestamper = "nat \<Rightarrow> Time"

text \<open>
  Modelled from the spec: the declaration of \<^verbatim>\<open>DBSchema\<close> is not in the generator's
  source file. A schema snapshot is an ordered mapping from table name to table
  descriptor; the descriptor of a table stays a type parameter. \<^verbatim>\<open>new(DBSchema)\<close>, the
  zero value, is the snapshot with no tables.
\<close>

datatype 'tbl DBSchema = DBSchema (Tables: "(string \<times> 'tbl) list")

text \<open>
  Modelled from the spec: the declarations of the change types are not in the
  generator's source file. A change is a tagged variant of the eight kinds of the data
  model; what a change carries stays a type parameter.
\<close>

datatype 'a Change =
    CreateTable 'a
  | DropTable 'a
  | AddColumn 'a
  | DropColumn 'a
  | AlterColumn 'a
  | AddIndex 'a
  | DropIndex 'a
  | ManualChange 'a

text \<open>
  Modelled from the spec: the declaration of \<^verbatim>\<open>Migration\<close> is not in the generator's
  source file. A migration holds the Up list, the Down list and the resulting Lock.
\<close>

record ('a, 'tbl) Migration =
  Up :: "'a Change list"
  Down :: "'a Change list"
  Lock :: "'tbl DBSchema"

text \<open>
  The values \<^verbatim>\<open>writeMigration\<close> passes as \<^verbatim>\<open>encoding.TextMarshaler\<close>: a schema or a
  list of changes.
\<close>

datatype ('a, 'tbl) TextMarshaler =
    SchemaText "'tbl DBSchema"
  | ChangeSetText "'a Change list"

text \<open>
  What the generator calls and does not define: library functions, the methods of the
  schema and change types, and the operating system, which decides for every path
  whether opening, writing or reading it fails (and with which message; a failed write
  also says how many bytes reached the file).
\<close>

record ('a, 'tbl) env =
  unicode_tables :: "rune \<Rightarrow> rune"
  filepath_Join :: "string \<Rightarrow> string \<Rightarrow> string"
  time_Now :: Timestamper
  json_Unmarshal :: "string \<Rightarrow> error + 'tbl DBSchema"
  schema_MarshalText :: "'tbl DBSchema \<Rightarrow> error + string"
  changes_MarshalText :: "'a Change list \<Rightarrow> error + string"
  change_String :: "'a Change \<Rightarrow> string"
  open_fails :: "string \<Rightarrow> string option"
  write_fails :: "string \<Rightarrow> (nat \<times> string) option"
  read_fails :: "string \<Rightarrow> string option"

fun MarshalText :: "('a, 'tbl) env \<Rightarrow> ('a, 'tbl) TextMarshaler \<Rightarrow> error + string" where
  "MarshalText env (SchemaText s) = schema_MarshalText env s"
| "MarshalText env (ChangeSetText cs) = changes_MarshalText env cs"

definition ReadFile :: "('a, 'tbl) env \<Rightarrow> string \<Rightarrow> world \<Rightarrow> error + string" where
  \<comment> \<open>\<^verbatim>\<open>ioutil.ReadFile\<close>: the operating system may refuse the read for a reason other
      than the file's absence (a parent that is not a directory or cannot be searched, a
      file that cannot be read), whether the file is there or not; otherwise a file that
      is not there gives an error for which \<^verbatim>\<open>os.IsNotExist\<close> holds\<close>
  "ReadFile env filename w =
     (case read_fails env filename of
        Some msg \<Rightarrow> Inl (Err msg)
      | None \<Rightarrow>
          (case files w filename of
             None \<Rightarrow> Inl (ErrNotExist (''open '' @ filename @ '': no such file or directory''))
           | Some content \<Rightarrow> Inr content))"

definition OpenFile :: "('a, 'tbl) env \<Rightarrow> string \<Rightarrow> world \<Rightarrow> error + world" where
  \<comment> \<open>with \<^verbatim>\<open>O_TRUNC|O_CREATE|O_WRONLY\<close>: the file exists and is empty afterwards\<close>
  "OpenFile env filename w =
     (case open_fails env filename of
        Some msg \<Rightarrow> Inl (Err msg)
      | None \<Rightarrow>
          Inr (w\<lparr>files := (files w)(filename \<mapsto> []),
                 fs_log := fs_log w @ [Opened filename]\<rparr>))"

definition Write :: "('a, 'tbl) env \<Rightarrow> string \<Rightarrow> string \<Rightarrow> world \<Rightarrow> error option \<times> world" where
  "Write env filename data w =
     (case write_fails env filename of
        Some (n, msg) \<Rightarrow>
          (Some (Err msg),
           w\<lparr>files := (files w)(filename \<mapsto> take n data),
             fs_log := fs_log w @ [WriteFailed filename (take n data)]\<rparr>)
      | None \<Rightarrow>
          (None,
           w\<lparr>files := (files w)(filename \<mapsto> data),
             fs_log := fs_log w @ [Wrote filename data]\<rparr>))"

section \<open>The migration generator\<close>

record MigrationGenerator =
  name :: string
  dir :: string
  now :: Timestamper

type_synonym migrationFileType = string

definition migrationUp :: migrationFileType where
  "migrationUp = ''up.sql''"

definition migrationDown :: migrationFileType where
  "migrationDown = ''down.sql''"

definition migrationLock :: migrationFileType where
  "migrationLock = ''lock.json''"

definition NewMigrationGenerator :: "('a, 'tbl) env \<Rightarrow> string \<Rightarrow> string \<Rightarrow> MigrationGenerator" where
  "NewMigrationGenerator env name' dir' =
     \<lparr>name = slugify (unicode_tables env) name', dir = dir', now = time_Now env\<rparr>"

definition no_changes_message :: string where
  "no_changes_message = ''There are no changes since last migration. Nothing will be generated.''"

definition changes_message :: string where
  "changes_message =
     ''There are changes since last migration.'' @ [CHR 0x0A, CHR 0x0A] @
     ''These are the proposed changes:''"

fun change_color :: "'a Change \<Rightarrow> color_attr" where
  "change_color (DropColumn x) = FgRed"
| "change_color (DropTable x) = FgRed"
| "change_color (ManualChange x) = FgYellow"
| "change_color change = FgGreen"

fun print_changes :: "('a, 'tbl) env \<Rightarrow> 'a Change list \<Rightarrow> world \<Rightarrow> world" where
  "print_changes env [] w = w"
| "print_changes env (change # rest) w =
     print_changes env rest
       (w\<lparr>stdout := stdout w @
            [ColorPrintf (change_color change) '' => '', Println (change_String env change)]\<rparr>)"

definition printMigrationInfo :: "('a, 'tbl) env \<Rightarrow> ('a, 'tbl) Migration \<Rightarrow> world \<Rightarrow> world" where
  "printMigrationInfo env migration w =
     (if length (Up migration) = 0
      then w\<lparr>stdout := stdout w @ [Println no_changes_message]\<rparr>
      else print_changes env (Up migration)
             (w\<lparr>stdout := stdout w @ [Println changes_message]\<rparr>))"

definition LoadLock :: "('a, 'tbl) env \<Rightarrow> MigrationGenerator \<Rightarrow> world \<Rightarrow> error + 'tbl DBSchema" where
  "LoadLock env g w =
     (case ReadFile env (filepath_Join env (dir g) migrationLock) w of
        Inl err \<Rightarrow>
          (if IsNotExist err then Inr (DBSchema [])
           else Inl (Err (''error opening lock file: '' @ Error err)))
      | Inr bytes \<Rightarrow>
          (case json_Unmarshal env bytes of
             Inl err \<Rightarrow> Inl (Err (''error unmarshaling lock schema: '' @ Error err))
           | Inr schema \<Rightarrow> Inr schema))"

definition createFile ::
  "('a, 'tbl) env \<Rightarrow> string \<Rightarrow> ('a, 'tbl) TextMarshaler \<Rightarrow> world \<Rightarrow> error option \<times> world" where
  \<comment> \<open>the deferred \<^verbatim>\<open>f.Close()\<close> changes nothing here, and the source discards its result\<close>
  "createFile env filename marshaler w =
     (case MarshalText env marshaler of
        Inl err \<Rightarrow> (Some err, w)
      | Inr data \<Rightarrow>
          (case OpenFile env filename w of
             Inl err \<Rightarrow>
               (Some (Err (''error opening file: '' @ filename @ '': '' @ Error err)), w)
           | Inr w1 \<Rightarrow>
               (case Write env filename data w1 of
                  (Some err, w2) \<Rightarrow>
                    (Some (Err (''error writing file: '' @ filename @ '': '' @ Error err)), w2)
                | (None, w2) \<Rightarrow> (None, w2))))"

definition migrationFile ::
  "('a, 'tbl) env \<Rightarrow> MigrationGenerator \<Rightarrow> migrationFileType \<Rightarrow> Time \<Rightarrow> string" where
  "migrationFile env g typ t =
     filepath_Join env (dir g) (fmt_d (sint (Unix t)) @ ''_'' @ name g @ ''.'' @ typ)"

definition migration_files ::
  "('a, 'tbl) env \<Rightarrow> MigrationGenerator \<Rightarrow> ('a, 'tbl) Migration \<Rightarrow> Time \<Rightarrow>
     (string \<times> ('a, 'tbl) TextMarshaler) list" where
  \<comment> \<open>the slice \<^verbatim>\<open>files\<close> of \<^verbatim>\<open>writeMigration\<close>\<close>
  "migration_files env g migration t =
     [(filepath_Join env (dir g) migrationLock, SchemaText (Lock migration)),
      (migrationFile env g migrationDown t, ChangeSetText (Down migration)),
      (migrationFile env g migrationUp t, ChangeSetText (Up migration))]"

fun createFiles ::
  "('a, 'tbl) env \<Rightarrow> (string \<times> ('a, 'tbl) TextMarshaler) list \<Rightarrow> world \<Rightarrow> error option \<times> world" where
  "createFiles env [] w = (None, w)"
| "createFiles env ((file, content) # rest) w =
     (case createFile env file content w of
        (Some err, w') \<Rightarrow> (Some err, w')
      | (None, w') \<Rightarrow> createFiles env rest w')"

definition writeMigration ::
  "('a, 'tbl) env \<Rightarrow> MigrationGenerator \<Rightarrow> ('a, 'tbl) Migration \<Rightarrow> world \<Rightarrow> error option \<times> world" where
  "writeMigration env g migration w =
     (let t = now g (clock_reads w);
          w0 = w\<lparr>clock_reads := Suc (clock_reads w)\<rparr>
      in createFiles env (migration_files env g migration t) w0)"

definition Generate ::
  "('a, 'tbl) env \<Rightarrow> MigrationGenerator \<Rightarrow> ('a, 'tbl) Migration \<Rightarrow> world \<Rightarrow> error option \<times> world" where
  "Generate env g migration w =
     (let w1 = printMigrationInfo env migration w
      in if length (Up migration) = 0 then (None, w1)
         else writeMigration env g migration w1)"

section \<open>Observations on a run\<close>

text \<open>
  What a run did to the file system is read from the log: the paths it opened and the
  paths it wrote completely, both in the order of the operations.
\<close>

fun opened_paths :: "fs_event list \<Rightarrow> string list" where
  "opened_paths [] = []"
| "opened_paths (Opened p # es) = p # opened_paths es"
| "opened_paths (e # es) = opened_paths es"

fun written_paths :: "fs_event list \<Rightarrow> string list" where
  "written_paths [] = []"
| "written_paths (Wrote p d # es) = p # written_paths es"
| "written_paths (e # es) = written_paths es"

definition events_since :: "world \<Rightarrow> world \<Rightarrow> fs_event list" where
  "events_since w w' = drop (length (fs_log w)) (fs_log w')"

definition file_ok :: "('a, 'tbl) env \<Rightarrow> string \<times> ('a, 'tbl) TextMarshaler \<Rightarrow> bool" where
  \<comment> \<open>nothing fails for this entry of \<^verbatim>\<open>files\<close>: marshalling, opening and writing succeed\<close>
  "file_ok env f =
     (\<not> isl (MarshalText env (snd f)) \<and> open_fails env (fst f) = None \<and>
      write_fails env (fst f) = None)"

definition slug_char :: "char \<Rightarrow> bool" where
  \<comment> \<open>the characters \<^verbatim>\<open>[a-z0-9_]\<close>\<close>
  "slug_char c =
     ((0x61 \<le> (of_char c :: nat) \<and> (of_char c :: nat) \<le> 0x7A) \<or>
      (0x30 \<le> (of_char c :: nat) \<and> (of_char c :: nat) \<le> 0x39) \<or> c = CHR ''_'')"

definition slug_rune :: "rune \<Rightarrow> string" where
  \<comment> \<open>what one rune of the lowercased name contributes to the slug\<close>
  "slug_rune r =
     (if (0x61 \<le> r \<and> r \<le> 0x7A) \<or> (0x30 \<le> r \<and> r \<le> 0x39) then [char_of r]
      else if r = 0x20 \<or> r = 0x5F \<or> r = 0x2D then ''_''
      else [])"

definition slug_byte :: "char \<Rightarrow> string" where
  \<comment> \<open>what one ASCII byte of the name contributes to the slug\<close>
  "slug_byte c =
     (if 0x41 \<le> (of_char c :: nat) \<and> (of_char c :: nat) \<le> 0x5A
        then [char_of ((of_char c :: nat) + 0x20)]
      else if (0x61 \<le> (of_char c :: nat) \<and> (of_char c :: nat) \<le> 0x7A) \<or>
              (0x30 \<le> (of_char c :: nat) \<and> (of_char c :: nat) \<le> 0x39) then [c]
      else if c = CHR '' '' \<or> c = CHR ''_'' \<or> c = CHR ''-'' then ''_''
      else [])"

section \<open>An example environment\<close>

text \<open>
  A concrete instance for the examples: paths are joined with a slash, the clock shows
  1500000000 seconds, nothing fails. In \<open>failing_env\<close> the down script cannot be opened.
\<close>

definition example_env :: "(string, unit) env" where
  "example_env =
     \<lparr>unicode_tables = (\<lambda>r. r),
      filepath_Join = (\<lambda>d f. d @ ''/'' @ f),
      time_Now = (\<lambda>k. Time 1500000000),
      json_Unmarshal =
        (\<lambda>b. if b = ''{}'' then Inr (DBSchema [])
             else Inl (Err ''unexpected end of JSON input'')),
      schema_MarshalText = (\<lambda>s. Inr (''{'' @ concat (map fst (Tables s)) @ ''}'')),
      changes_MarshalText = (\<lambda>cs. Inr (replicate (length cs) CHR '';'')),
      change_String = (\<lambda>c. ''change''),
      open_fails = (\<lambda>p. None),
      write_fails = (\<lambda>p. None),
      read_fails = (\<lambda>p. None)\<rparr>"

definition failing_env :: "(string, unit) env" where
  "failing_env =
     example_env
       \<lparr>open_fails :=
          (\<lambda>p. if p = ''migrations/1500000000_add_users.down.sql''
               then Some ''permission denied'' else None)\<rparr>"

definition example_migration :: "(string, unit) Migration" where
  "example_migration =
     \<lparr>Up = [CreateTable ''users''], Down = [DropTable ''users''],
      Lock = DBSchema [(''users'', ())]\<rparr>"

definition empty_migration :: "(string, unit) Migration" where
  "empty_migration = \<lparr>Up = [], Down = [], Lock = DBSchema []\<rparr>"

definition empty_world :: world where
  "empty_world = \<lparr>files = Map.empty, fs_log = [], stdout = [], clock_reads = 0\<rparr>"

definition corrupt_world :: world where
  "corrupt_world = empty_world\<lparr>files := [''migrations/lock.json'' \<mapsto> ''{'']\<rparr>"

definition example_generator :: MigrationGenerator where
  "example_generator = NewMigrationGenerator example_env ''Add Users'' ''migrations''"

text \<open>
  A migrations directory whose path names a regular file: no lock file exists under it,
  and reading one fails because the parent is not a directory.
\<close>

definition notdir_env :: "(string, unit) env" where
  "notdir_env =
     example_env
       \<lparr>read_fails :=
          (\<lambda>p. if p = ''notadir/lock.json''
               then Some ''open notadir/lock.json: not a directory'' else None)\<rparr>"

definition notdir_world :: world where
  "notdir_world = empty_world\<lparr>files := [''notadir'' \<mapsto> ''a regular file'']\<rparr>"

definition notdir_generator :: MigrationGenerator where
  "notdir_generator = NewMigrationGenerator notdir_env ''Add Users'' ''notadir''"

section \<open>Evaluating characters and numerals\<close>

lemma char_of_nat_bits:
  "char_of (n::nat) = Char (odd n) (odd (n div 2)) (odd (n div 4)) (odd (n div 8))
     (odd (n div 16)) (odd (n div 32)) (odd (n div 64)) (odd (n div 128))"
  by (simp add: char_of_def bit_iff_odd)

lemma of_char_eq_nat: "(of_char c :: nat) = n \<Longrightarrow> c = char_of n"
  by (metis char_of_char)

lemma char_of_separators:
  "char_of (0x20 :: nat) = CHR '' ''" "char_of (0x5F :: nat) = CHR ''_''"
  "char_of (0x2D :: nat) = CHR ''-''"
  by (simp_all add: char_of_nat_bits)

lemmas slug_eval = slugify_def ToLower_runes_def unicode_ToLower_def range_runes.simps(2)
  DecodeRune.simps(2) utf8_size_def accept_lo_def accept_hi_def RuneError_def char_of_nat_bits

lemma fmt_d_example: "fmt_d 1500000000 = ''1500000000''"
  by (simp add: fmt_d_def digits10.simps char_of_nat_bits)

section \<open>Decoding: an ASCII byte is always read as itself\<close>

lemma range_runes_ascii:
  "(of_char c :: nat) < 0x80 \<Longrightarrow> range_runes (c # cs) = of_char c # range_runes cs"
  by (simp add: range_runes.simps(2) DecodeRune.simps(2) utf8_size_def)

lemma DecodeRune_width:
  "snd (DecodeRune (x # bs)) \<le> Suc (length bs) \<and> 0 < snd (DecodeRune (x # bs))"
  by (auto simp: DecodeRune.simps(2) Let_def utf8_size_def Suc_le_eq)

lemma DecodeRune_stable:
  assumes "k < 0x80"
  shows "DecodeRune (x # bs @ k # rest) = DecodeRune (x # bs)"
proof -
  consider "bs = []" | a where "bs = [a]" | a b where "bs = [a, b]"
    | a b c more where "bs = a # b # c # more"
    by (cases bs; cases "tl bs"; cases "tl (tl bs)") auto
  then show ?thesis
  proof cases
    case 1
    then show ?thesis using assms
      by (auto simp: DecodeRune.simps(2) Let_def utf8_size_def accept_lo_def accept_hi_def)
  next
    case 2
    then show ?thesis using assms
      by (auto simp: DecodeRune.simps(2) Let_def utf8_size_def accept_lo_def accept_hi_def)
  next
    case 3
    then show ?thesis using assms
      by (auto simp: DecodeRune.simps(2) Let_def utf8_size_def accept_lo_def accept_hi_def)
  next
    case 4
    then show ?thesis
      by (simp add: DecodeRune.simps(2) Let_def utf8_size_def)
  qed
qed

lemma range_runes_sync:
  "(of_char c :: nat) < 0x80 \<Longrightarrow>
     range_runes (s1 @ c # s2) = range_runes s1 @ of_char c # range_runes s2"
proof (induction s1 rule: range_runes.induct)
  case 1
  then show ?case by (simp add: range_runes_ascii)
next
  case (2 x xs)
  obtain r w where d: "DecodeRune (map of_char (x # xs)) = (r, w)"
    by (cases "DecodeRune (map of_char (x # xs))")
  have w: "w - 1 \<le> length xs"
    using DecodeRune_width [of "of_char x" "map of_char xs"] d by auto
  have d': "DecodeRune (map of_char (x # xs @ c # s2)) = (r, w)"
    using DecodeRune_stable [of "of_char c" "of_char x" "map of_char xs" "map of_char s2"]
      d "2.prems"
    by simp
  have "range_runes ((x # xs) @ c # s2) = r # range_runes (drop (w - 1) xs @ c # s2)"
    using d' w by (simp add: range_runes.simps(2))
  also have "\<dots> = r # range_runes (drop (w - 1) xs) @ of_char c # range_runes s2"
    using "2.IH" [OF d [symmetric] "2.prems"] by simp
  also have "\<dots> = range_runes (x # xs) @ of_char c # range_runes s2"
    using d by (simp add: range_runes.simps(2))
  finally show ?case .
qed

section \<open>slugify as a map over the runes\<close>

lemma slugify_loop_concat: "slugify_loop rs buf = buf @ concat (map slug_rune rs)"
  by (induction rs arbitrary: buf) (auto simp: slug_rune_def)

lemma slugify_concat: "slugify t s = concat (map slug_rune (ToLower_runes t s))"
  by (simp add: slugify_def slugify_loop_concat)

lemma slug_rune_chars: "list_all slug_char (slug_rune r)"
  by (auto simp: slug_rune_def slug_char_def)

lemma slugify_slug_chars: "list_all slug_char (slugify t s)"
  by (simp add: slugify_concat list_all_iff)
     (use slug_rune_chars in \<open>auto simp: list_all_iff\<close>)

lemma slug_byte_rune:
  "(of_char c :: nat) < 0x80 \<Longrightarrow> slug_rune (unicode_ToLower t (of_char c)) = slug_byte c"
  using char_of_separators
  by (auto simp: slug_rune_def slug_byte_def unicode_ToLower_def dest: of_char_eq_nat)

lemma slugify_append_ascii:
  assumes "(of_char c :: nat) < 0x80"
  shows "slugify t (s1 @ c # s2) = slugify t s1 @ slug_byte c @ slugify t s2"
  using assms by (simp add: slugify_concat ToLower_runes_def range_runes_sync slug_byte_rune)

lemma slug_char_ascii: "slug_char c \<Longrightarrow> (of_char c :: nat) < 0x80"
  by (auto simp: slug_char_def)

lemma slug_byte_fix: "slug_char c \<Longrightarrow> slug_byte c = [c]"
  by (auto simp: slug_char_def slug_byte_def)

lemma slugify_fix: "list_all slug_char s \<Longrightarrow> slugify t s = s"
proof (induction s)
  case Nil
  show ?case by (simp add: slugify_concat ToLower_runes_def)
next
  case (Cons c s)
  have "slugify t ([] @ c # s) = slugify t [] @ slug_byte c @ slugify t s"
    using Cons.prems by (intro slugify_append_ascii) (simp add: slug_char_ascii)
  then show ?case
    using Cons by (simp add: slug_byte_fix slugify_concat ToLower_runes_def)
qed

section \<open>Creating files\<close>

lemma createFile_cases:
  "createFile env p c w =
     (case MarshalText env c of
        Inl err \<Rightarrow> (Some err, w)
      | Inr data \<Rightarrow>
          (case open_fails env p of
             Some msg \<Rightarrow> (Some (Err (''error opening file: '' @ p @ '': '' @ msg)), w)
           | None \<Rightarrow>
               (case write_fails env p of
                  Some (n, msg) \<Rightarrow>
                    (Some (Err (''error writing file: '' @ p @ '': '' @ msg)),
                     w\<lparr>files := (files w)(p \<mapsto> take n data),
                       fs_log := fs_log w @ [Opened p, WriteFailed p (take n data)]\<rparr>)
                | None \<Rightarrow>
                    (None,
                     w\<lparr>files := (files w)(p \<mapsto> data),
                       fs_log := fs_log w @ [Opened p, Wrote p data]\<rparr>))))"
  by (simp add: createFile_def OpenFile_def Write_def split: sum.splits option.splits prod.splits)

lemma opened_paths_append: "opened_paths (xs @ ys) = opened_paths xs @ opened_paths ys"
  by (induction xs rule: opened_paths.induct) simp_all

lemma written_paths_append: "written_paths (xs @ ys) = written_paths xs @ written_paths ys"
  by (induction xs rule: written_paths.induct) simp_all

lemma createFile_ok:
  assumes "file_ok env (p, c)"
  shows "\<exists>data. MarshalText env c = Inr data \<and> createFile env p c w =
     (None, w\<lparr>files := (files w)(p \<mapsto> data), fs_log := fs_log w @ [Opened p, Wrote p data]\<rparr>)"
  using assms by (cases "MarshalText env c") (auto simp: file_ok_def createFile_cases)

lemma createFile_None:
  assumes "fst (createFile env p c w) = None"
  shows "file_ok env (p, c)"
  using assms
  by (auto simp: file_ok_def createFile_cases split: sum.splits option.splits prod.splits)

lemma createFile_keeps:
  "clock_reads (snd (createFile env p c w)) = clock_reads w \<and>
   stdout (snd (createFile env p c w)) = stdout w"
  by (auto simp: createFile_cases split: sum.splits option.splits prod.splits)

lemma createFiles_keeps:
  "clock_reads (snd (createFiles env fs w)) = clock_reads w \<and>
   stdout (snd (createFiles env fs w)) = stdout w"
proof (induction fs arbitrary: w)
  case Nil
  show ?case by simp
next
  case (Cons f fs)
  obtain p c where f: "f = (p, c)" by (cases f)
  obtain r w' where cf: "createFile env p c w = (r, w')" by (cases "createFile env p c w")
  have k: "clock_reads w' = clock_reads w \<and> stdout w' = stdout w"
    using createFile_keeps [of env p c w] cf by simp
  show ?case
  proof (cases r)
    case None
    then show ?thesis using Cons.IH [of w'] k f cf by simp
  next
    case (Some e)
    then show ?thesis using k f cf by simp
  qed
qed

lemma createFiles_order:
  "\<exists>evs. fs_log (snd (createFiles env fs w)) = fs_log w @ evs \<and>
     prefix (written_paths evs) (map fst fs) \<and>
     prefix (opened_paths evs) (map fst fs) \<and>
     (opened_paths evs = written_paths evs \<or> butlast (opened_paths evs) = written_paths evs)"
proof (induction fs arbitrary: w)
  case Nil
  show ?case by simp
next
  case (Cons f fs)
  obtain p c where f: "f = (p, c)" by (cases f)
  show ?case
  proof (cases "file_ok env (p, c)")
    case True
    then obtain data where cf: "createFile env p c w =
        (None, w\<lparr>files := (files w)(p \<mapsto> data), fs_log := fs_log w @ [Opened p, Wrote p data]\<rparr>)"
      using createFile_ok [of env p c w] by blast
    define w' where
      "w' = w\<lparr>files := (files w)(p \<mapsto> data), fs_log := fs_log w @ [Opened p, Wrote p data]\<rparr>"
    obtain evs where evs: "fs_log (snd (createFiles env fs w')) = fs_log w' @ evs"
      "prefix (written_paths evs) (map fst fs)" "prefix (opened_paths evs) (map fst fs)"
      "opened_paths evs = written_paths evs \<or> butlast (opened_paths evs) = written_paths evs"
      using Cons.IH [of w'] by blast
    have run: "createFiles env (f # fs) w = createFiles env fs w'"
      using f cf by (simp add: w'_def)
    let ?evs = "[Opened p, Wrote p data] @ evs"
    have "fs_log (snd (createFiles env (f # fs) w)) = fs_log w @ ?evs"
      using run evs(1) by (simp add: w'_def)
    moreover have "prefix (written_paths ?evs) (map fst (f # fs))"
      using evs(2) f by simp
    moreover have "prefix (opened_paths ?evs) (map fst (f # fs))"
      using evs(3) f by simp
    moreover have "opened_paths ?evs = written_paths ?evs \<or>
        butlast (opened_paths ?evs) = written_paths ?evs"
      using evs(4) by (cases "opened_paths evs") auto
    ultimately show ?thesis by blast
  next
    case False
    have "fs_log (snd (createFile env p c w)) = fs_log w \<or>
          (\<exists>d. fs_log (snd (createFile env p c w)) = fs_log w @ [Opened p, WriteFailed p d])"
      using False
      by (auto simp: createFile_cases file_ok_def split: sum.splits option.splits prod.splits)
    moreover have "createFiles env (f # fs) w = createFile env p c w"
      using False f createFile_None [of env p c w]
      by (cases "createFile env p c w") (auto split: option.splits)
    ultimately show ?thesis using f by auto
  qed
qed

lemma createFiles_ok_prefix:
  "list_all (file_ok env) pre \<Longrightarrow>
     \<exists>evs w'. createFiles env pre w = (None, w') \<and> fs_log w' = fs_log w @ evs \<and>
       opened_paths evs = map fst pre \<and> written_paths evs = map fst pre \<and>
       (\<forall>rest. createFiles env (pre @ rest) w = createFiles env rest w')"
proof (induction pre arbitrary: w)
  case Nil
  show ?case by simp
next
  case (Cons f pre)
  obtain p c where f: "f = (p, c)" by (cases f)
  have ok: "file_ok env (p, c)" and oks: "list_all (file_ok env) pre"
    using Cons.prems f by simp_all
  obtain data where cf: "createFile env p c w =
      (None, w\<lparr>files := (files w)(p \<mapsto> data), fs_log := fs_log w @ [Opened p, Wrote p data]\<rparr>)"
    using createFile_ok [OF ok, of w] by blast
  define w1 where
    "w1 = w\<lparr>files := (files w)(p \<mapsto> data), fs_log := fs_log w @ [Opened p, Wrote p data]\<rparr>"
  obtain evs w' where r: "createFiles env pre w1 = (None, w')" "fs_log w' = fs_log w1 @ evs"
    "opened_paths evs = map fst pre" "written_paths evs = map fst pre"
    "\<forall>rest. createFiles env (pre @ rest) w1 = createFiles env rest w'"
    using Cons.IH [OF oks, of w1] by blast
  have "createFiles env (f # pre) w = (None, w')"
    using f cf r(1) by (simp add: w1_def)
  moreover have "fs_log w' = fs_log w @ ([Opened p, Wrote p data] @ evs)"
    using r(2) by (simp add: w1_def)
  moreover have "opened_paths ([Opened p, Wrote p data] @ evs) = map fst (f # pre)"
    using r(3) f by simp
  moreover have "written_paths ([Opened p, Wrote p data] @ evs) = map fst (f # pre)"
    using r(4) f by simp
  moreover have "\<forall>rest. createFiles env ((f # pre) @ rest) w = createFiles env rest w'"
    using f cf r(5) by (simp add: w1_def)
  ultimately show ?case by blast
qed

lemma createFiles_None:
  "fst (createFiles env fs w) = None \<Longrightarrow> list_all (file_ok env) fs"
proof (induction fs arbitrary: w)
  case Nil
  show ?case by simp
next
  case (Cons f fs)
  obtain p c where f: "f = (p, c)" by (cases f)
  obtain r w' where cf: "createFile env p c w = (r, w')" by (cases "createFile env p c w")
  have r: "r = None" using Cons.prems f cf by (cases r) simp_all
  then have "file_ok env (p, c)" using createFile_None [of env p c w] cf by simp
  moreover have "list_all (file_ok env) fs"
    using Cons.IH [of w'] Cons.prems f cf r by simp
  ultimately show ?case using f by simp
qed

section \<open>Printing changes nothing on disk\<close>

lemma print_changes_keeps:
  "files (print_changes env cs w) = files w \<and> fs_log (print_changes env cs w) = fs_log w \<and>
   clock_reads (print_changes env cs w) = clock_reads w"
  by (induction cs arbitrary: w) simp_all

lemma printMigrationInfo_keeps:
  "files (printMigrationInfo env m w) = files w \<and>
   fs_log (printMigrationInfo env m w) = fs_log w \<and>
   clock_reads (printMigrationInfo env m w) = clock_reads w"
  by (simp add: printMigrationInfo_def print_changes_keeps)

lemma Generate_writes:
  "Up m \<noteq> [] \<Longrightarrow>
     Generate env g m w =
       createFiles env (migration_files env g m (now g (clock_reads w)))
         ((printMigrationInfo env m w)\<lparr>clock_reads := Suc (clock_reads w)\<rparr>)"
  by (simp add: Generate_def writeMigration_def Let_def printMigrationInfo_keeps)

lemma migration_paths_distinct:
  assumes "inj (filepath_Join env (dir g))"
  shows "distinct [filepath_Join env (dir g) migrationLock,
                   migrationFile env g migrationDown t, migrationFile env g migrationUp t]"
proof -
  define s where "s = fmt_d (sint (Unix t)) @ ''_'' @ name g"
  define J where "J = filepath_Join env (dir g)"
  define l where "l = ''lock.json''"
  define d where "d = s @ ''.down.sql''"
  define u where "u = s @ ''.up.sql''"
  have paths: "filepath_Join env (dir g) migrationLock = J l"
    "migrationFile env g migrationDown t = J d" "migrationFile env g migrationUp t = J u"
    by (simp_all add: migrationFile_def migrationLock_def migrationDown_def migrationUp_def
        s_def J_def l_def d_def u_def)
  have "last d \<noteq> last l" "last u \<noteq> last l"
    by (simp_all add: d_def u_def l_def)
  then have "d \<noteq> l" "u \<noteq> l"
    by blast+
  moreover have "d \<noteq> u"
    by (simp add: d_def u_def)
  moreover have "inj J"
    using assms by (simp add: J_def)
  ultimately have "J l \<noteq> J d" "J l \<noteq> J u" "J d \<noteq> J u"
    by (blast dest: injD)+
  then show ?thesis
    unfolding paths by simp
qed

section \<open>The example runs\<close>

lemma example_generator_eq:
  "example_generator =
     \<lparr>name = ''add_users'', dir = ''migrations'', now = (\<lambda>k. Time 1500000000)\<rparr>"
  by (simp add: example_generator_def NewMigrationGenerator_def example_env_def slug_eval)

lemma example_env_sel:
  "unicode_tables example_env = (\<lambda>r. r)"
  "filepath_Join example_env = (\<lambda>d f. d @ ''/'' @ f)"
  "json_Unmarshal example_env =
     (\<lambda>b. if b = ''{}'' then Inr (DBSchema []) else Inl (Err ''unexpected end of JSON input''))"
  "schema_MarshalText example_env = (\<lambda>s. Inr (''{'' @ concat (map fst (Tables s)) @ ''}''))"
  "changes_MarshalText example_env = (\<lambda>cs. Inr (replicate (length cs) CHR '';''))"
  "change_String example_env = (\<lambda>c. ''change'')"
  "open_fails example_env = (\<lambda>p. None)"
  "write_fails example_env = (\<lambda>p. None)"
  "read_fails example_env = (\<lambda>p. None)"
  by (simp_all add: example_env_def)

lemma failing_env_sel:
  "filepath_Join failing_env = (\<lambda>d f. d @ ''/'' @ f)"
  "schema_MarshalText failing_env = (\<lambda>s. Inr (''{'' @ concat (map fst (Tables s)) @ ''}''))"
  "changes_MarshalText failing_env = (\<lambda>cs. Inr (replicate (length cs) CHR '';''))"
  "change_String failing_env = (\<lambda>c. ''change'')"
  "open_fails failing_env =
     (\<lambda>p. if p = ''migrations/1500000000_add_users.down.sql''
          then Some ''permission denied'' else None)"
  "write_fails failing_env = (\<lambda>p. None)"
  by (simp_all add: failing_env_def example_env_def)

lemma example_now: "now example_generator k = Time 1500000000"
  by (simp add: example_generator_eq)

lemma example_files:
  "migration_files example_env example_generator example_migration (Time 1500000000) =
     [(''migrations/lock.json'', SchemaText (DBSchema [(''users'', ())])),
      (''migrations/1500000000_add_users.down.sql'', ChangeSetText [DropTable ''users'']),
      (''migrations/1500000000_add_users.up.sql'', ChangeSetText [CreateTable ''users''])]"
  by (simp add: migration_files_def migrationFile_def example_generator_eq fmt_d_example
      example_env_sel example_migration_def migrationLock_def migrationDown_def migrationUp_def)

lemma failing_files:
  "migration_files failing_env example_generator example_migration (Time 1500000000) =
     [(''migrations/lock.json'', SchemaText (DBSchema [(''users'', ())])),
      (''migrations/1500000000_add_users.down.sql'', ChangeSetText [DropTable ''users'']),
      (''migrations/1500000000_add_users.up.sql'', ChangeSetText [CreateTable ''users''])]"
  by (simp add: migration_files_def migrationFile_def example_generator_eq fmt_d_example
      failing_env_sel example_migration_def migrationLock_def migrationDown_def migrationUp_def)

lemma example_writeMigration:
  "writeMigration example_env example_generator example_migration empty_world =
     (None,
      \<lparr>files = [''migrations/lock.json'' \<mapsto> ''{users}'',
                ''migrations/1500000000_add_users.down.sql'' \<mapsto> '';'',
                ''migrations/1500000000_add_users.up.sql'' \<mapsto> '';''],
       fs_log = [Opened ''migrations/lock.json'', Wrote ''migrations/lock.json'' ''{users}'',
                 Opened ''migrations/1500000000_add_users.down.sql'',
                 Wrote ''migrations/1500000000_add_users.down.sql'' '';'',
                 Opened ''migrations/1500000000_add_users.up.sql'',
                 Wrote ''migrations/1500000000_add_users.up.sql'' '';''],
       stdout = [], clock_reads = 1\<rparr>)"
  by (simp add: writeMigration_def example_now example_files createFile_cases Let_def
      example_env_sel)
     (simp add: empty_world_def)

lemma example_Generate:
  "Generate example_env example_generator example_migration empty_world =
     (None,
      \<lparr>files = [''migrations/lock.json'' \<mapsto> ''{users}'',
                ''migrations/1500000000_add_users.down.sql'' \<mapsto> '';'',
                ''migrations/1500000000_add_users.up.sql'' \<mapsto> '';''],
       fs_log = [Opened ''migrations/lock.json'', Wrote ''migrations/lock.json'' ''{users}'',
                 Opened ''migrations/1500000000_add_users.down.sql'',
                 Wrote ''migrations/1500000000_add_users.down.sql'' '';'',
                 Opened ''migrations/1500000000_add_users.up.sql'',
                 Wrote ''migrations/1500000000_add_users.up.sql'' '';''],
       stdout = [Println changes_message, ColorPrintf FgGreen '' => '', Println ''change''],
       clock_reads = 1\<rparr>)"
  by (simp add: Generate_def writeMigration_def printMigrationInfo_def example_now example_files
      createFile_cases Let_def example_env_sel)
     (simp add: example_migration_def empty_world_def example_env_sel)

lemma failing_writeMigration:
  "writeMigration failing_env example_generator example_migration empty_world =
     (Some (Err ''error opening file: migrations/1500000000_add_users.down.sql: permission denied''),
      \<lparr>files = [''migrations/lock.json'' \<mapsto> ''{users}''],
       fs_log = [Opened ''migrations/lock.json'', Wrote ''migrations/lock.json'' ''{users}''],
       stdout = [], clock_reads = 1\<rparr>)"
  by (simp add: writeMigration_def example_now failing_files createFile_cases Let_def
      failing_env_sel)
     (simp add: empty_world_def)

lemma failing_Generate:
  "Generate failing_env example_generator example_migration empty_world =
     (Some (Err ''error opening file: migrations/1500000000_add_users.down.sql: permission denied''),
      \<lparr>files = [''migrations/lock.json'' \<mapsto> ''{users}''],
       fs_log = [Opened ''migrations/lock.json'', Wrote ''migrations/lock.json'' ''{users}''],
       stdout = [Println changes_message, ColorPrintf FgGreen '' => '', Println ''change''],
       clock_reads = 1\<rparr>)"
  by (simp add: Generate_def writeMigration_def printMigrationInfo_def example_now failing_files
      createFile_cases Let_def failing_env_sel)
     (simp add: example_migration_def empty_world_def failing_env_sel)

lemma empty_world_sel:
  "files empty_world = Map.empty" "fs_log empty_world = []" "stdout empty_world = []"
  "clock_reads empty_world = 0"
  by (simp_all add: empty_world_def)

section \<open>The claims\<close>

subsection \<open>C1: the order of the three writes\<close>

text \<open>
  C1, as the code has it. Persisting a migration writes the lock first, then the down
  script, then the up script, each only once the one before it is written: the paths
  written completely, and the paths opened, are both a prefix of lock, down, up, and at
  most the last file opened is left incomplete. So the lock is written before the
  scripts, not after them.
\<close>

theorem writeMigration_lock_first:
  "prefix (written_paths (events_since w (snd (writeMigration env g m w))))
     [filepath_Join env (dir g) migrationLock,
      migrationFile env g migrationDown (now g (clock_reads w)),
      migrationFile env g migrationUp (now g (clock_reads w))] \<and>
   prefix (opened_paths (events_since w (snd (writeMigration env g m w))))
     [filepath_Join env (dir g) migrationLock,
      migrationFile env g migrationDown (now g (clock_reads w)),
      migrationFile env g migrationUp (now g (clock_reads w))] \<and>
   (opened_paths (events_since w (snd (writeMigration env g m w))) =
      written_paths (events_since w (snd (writeMigration env g m w))) \<or>
    butlast (opened_paths (events_since w (snd (writeMigration env g m w)))) =
      written_paths (events_since w (snd (writeMigration env g m w))))"
proof -
  define t where "t = now g (clock_reads w)"
  define w0 where "w0 = w\<lparr>clock_reads := Suc (clock_reads w)\<rparr>"
  have run: "writeMigration env g m w = createFiles env (migration_files env g m t) w0"
    by (simp add: writeMigration_def t_def w0_def Let_def)
  obtain evs where evs:
    "fs_log (snd (createFiles env (migration_files env g m t) w0)) = fs_log w0 @ evs"
    "prefix (written_paths evs) (map fst (migration_files env g m t))"
    "prefix (opened_paths evs) (map fst (migration_files env g m t))"
    "opened_paths evs = written_paths evs \<or> butlast (opened_paths evs) = written_paths evs"
    using createFiles_order [of env "migration_files env g m t" w0] by blast
  have "events_since w (snd (writeMigration env g m w)) = evs"
    using evs(1) run by (simp add: events_since_def w0_def)
  moreover have "map fst (migration_files env g m t) =
     [filepath_Join env (dir g) migrationLock, migrationFile env g migrationDown t,
      migrationFile env g migrationUp t]"
    by (simp add: migration_files_def)
  ultimately show ?thesis
    using evs(2,3,4) by (simp add: t_def)
qed

text \<open>
  An instance: the run of the example writes lock, down script and up script in this
  order.
\<close>

theorem writeMigration_lock_first_witness:
  "prefix
     (written_paths (events_since empty_world
        (snd (writeMigration example_env example_generator example_migration empty_world))))
     [''migrations/lock.json'', ''migrations/1500000000_add_users.down.sql'',
      ''migrations/1500000000_add_users.up.sql''] \<and>
   written_paths (events_since empty_world
     (snd (writeMigration example_env example_generator example_migration empty_world))) =
     [''migrations/lock.json'', ''migrations/1500000000_add_users.down.sql'',
      ''migrations/1500000000_add_users.up.sql'']"
  using writeMigration_lock_first [of empty_world example_env example_generator example_migration]
  by (simp add: example_writeMigration events_since_def empty_world_sel)

text \<open>
  C1 as stated fails. When the down script cannot be opened, the run stops with that
  error after the lock has been written completely: the lock file is on disk with the
  new snapshot, and neither script file of the run exists.
\<close>

theorem writeMigration_lock_without_scripts:
  "fst (writeMigration failing_env example_generator example_migration empty_world) =
     Some (Err ''error opening file: migrations/1500000000_add_users.down.sql: permission denied'') \<and>
   written_paths (events_since empty_world
     (snd (writeMigration failing_env example_generator example_migration empty_world))) =
     [''migrations/lock.json''] \<and>
   files (snd (writeMigration failing_env example_generator example_migration empty_world))
     ''migrations/lock.json'' = Some ''{users}'' \<and>
   files (snd (writeMigration failing_env example_generator example_migration empty_world))
     ''migrations/1500000000_add_users.down.sql'' = None \<and>
   files (snd (writeMigration failing_env example_generator example_migration empty_world))
     ''migrations/1500000000_add_users.up.sql'' = None"
  by (simp add: failing_writeMigration events_since_def empty_world_sel)

subsection \<open>C2: nothing to do\<close>

text \<open>
  C2. For a migration whose Up list is empty, Generate returns no error, prints the
  line that says nothing will be generated and changes nothing else: no file is opened
  or written, and the files on disk are as before.
\<close>

theorem Generate_nothing_to_do:
  "Up m = [] \<Longrightarrow>
     Generate env g m w = (None, w\<lparr>stdout := stdout w @ [Println no_changes_message]\<rparr>) \<and>
     files (snd (Generate env g m w)) = files w \<and>
     events_since w (snd (Generate env g m w)) = [] \<and>
     no_changes_message \<noteq> changes_message"
  by (simp add: Generate_def printMigrationInfo_def events_since_def no_changes_message_def
      changes_message_def)

theorem Generate_nothing_to_do_witness:
  "Up empty_migration = [] \<and>
   fst (Generate example_env example_generator empty_migration empty_world) = None \<and>
   stdout (snd (Generate example_env example_generator empty_migration empty_world)) =
     [Println ''There are no changes since last migration. Nothing will be generated.''] \<and>
   fs_log (snd (Generate example_env example_generator empty_migration empty_world)) = []"
proof -
  have h: "Up empty_migration = []"
    by (simp add: empty_migration_def)
  show ?thesis
    using Generate_nothing_to_do [OF h, of example_env example_generator empty_world] h
    by (simp add: empty_world_sel no_changes_message_def)
qed

subsection \<open>C3: no lock file yet\<close>

text \<open>
  C3, as the code has it. Let the lock file not exist. If reading it fails with the
  error that says so, the one \<^verbatim>\<open>os.IsNotExist\<close> holds for, LoadLock returns the empty
  schema snapshot, which has no tables, and no error. If the read is refused for another
  reason, LoadLock returns the error of that read after the words
  \<^verbatim>\<open>error opening lock file\<close>, and no snapshot.
\<close>

theorem LoadLock_bootstrap:
  "files w (filepath_Join env (dir g) migrationLock) = None \<Longrightarrow>
     LoadLock env g w =
       (case read_fails env (filepath_Join env (dir g) migrationLock) of
          None \<Rightarrow> Inr (DBSchema [])
        | Some msg \<Rightarrow> Inl (Err (''error opening lock file: '' @ msg))) \<and>
     Tables (DBSchema []) = []"
  by (simp add: LoadLock_def ReadFile_def split: option.splits)

theorem LoadLock_bootstrap_witness:
  "files empty_world (filepath_Join example_env (dir example_generator) migrationLock) = None \<and>
   read_fails example_env (filepath_Join example_env (dir example_generator) migrationLock) = None \<and>
   LoadLock example_env example_generator empty_world = Inr (DBSchema [])"
proof -
  have h: "files empty_world (filepath_Join example_env (dir example_generator) migrationLock) = None"
    by (simp add: empty_world_sel)
  show ?thesis
    using LoadLock_bootstrap [OF h] h by (simp add: example_env_sel)
qed

text \<open>
  C3 as stated fails. The migrations directory \<^verbatim>\<open>notadir\<close> is a regular file: the lock
  file does not exist, the read fails because the parent is not a directory, and
  LoadLock returns an error instead of the empty snapshot.
\<close>

theorem LoadLock_absent_not_a_directory:
  "files notdir_world (filepath_Join notdir_env (dir notdir_generator) migrationLock) = None \<and>
   LoadLock notdir_env notdir_generator notdir_world =
     Inl (Err ''error opening lock file: open notadir/lock.json: not a directory'')"
proof -
  have p: "filepath_Join notdir_env (dir notdir_generator) migrationLock = ''notadir/lock.json''"
    by (simp add: notdir_env_def example_env_def notdir_generator_def NewMigrationGenerator_def
        migrationLock_def)
  have r: "read_fails notdir_env ''notadir/lock.json'' =
      Some ''open notadir/lock.json: not a directory''"
    by (simp add: notdir_env_def)
  have f: "files notdir_world ''notadir/lock.json'' = None"
    by (simp add: notdir_world_def)
  show ?thesis
    by (simp add: p f r LoadLock_def ReadFile_def)
qed

subsection \<open>C4: a successful Generate\<close>

text \<open>
  C4. For a migration whose Up list is not empty, a Generate that returns no error has
  persisted exactly three artifacts: the lock snapshot, the down script and the up
  script. The run opened and wrote these three files and no other, each with the text
  its marshaller gave, and the files on disk afterwards are the old ones with these
  three set. Where joining a file name to the directory is injective, the three paths
  are different files.
\<close>

theorem Generate_three_artifacts:
  assumes "Up m \<noteq> []" and "fst (Generate env g m w) = None"
  shows "(\<exists>lock down up.
     schema_MarshalText env (Lock m) = Inr lock \<and>
     changes_MarshalText env (Down m) = Inr down \<and>
     changes_MarshalText env (Up m) = Inr up \<and>
     events_since w (snd (Generate env g m w)) =
       [Opened (filepath_Join env (dir g) migrationLock),
        Wrote (filepath_Join env (dir g) migrationLock) lock,
        Opened (migrationFile env g migrationDown (now g (clock_reads w))),
        Wrote (migrationFile env g migrationDown (now g (clock_reads w))) down,
        Opened (migrationFile env g migrationUp (now g (clock_reads w))),
        Wrote (migrationFile env g migrationUp (now g (clock_reads w))) up] \<and>
     files (snd (Generate env g m w)) =
       (files w)(filepath_Join env (dir g) migrationLock \<mapsto> lock,
                 migrationFile env g migrationDown (now g (clock_reads w)) \<mapsto> down,
                 migrationFile env g migrationUp (now g (clock_reads w)) \<mapsto> up)) \<and>
   (inj (filepath_Join env (dir g)) \<longrightarrow>
      distinct [filepath_Join env (dir g) migrationLock,
                migrationFile env g migrationDown (now g (clock_reads w)),
                migrationFile env g migrationUp (now g (clock_reads w))])"
proof -
  define t where "t = now g (clock_reads w)"
  define w0 where "w0 = (printMigrationInfo env m w)\<lparr>clock_reads := Suc (clock_reads w)\<rparr>"
  define lp where "lp = filepath_Join env (dir g) migrationLock"
  define dp where "dp = migrationFile env g migrationDown t"
  define up where "up = migrationFile env g migrationUp t"
  have fs: "migration_files env g m t =
      [(lp, SchemaText (Lock m)), (dp, ChangeSetText (Down m)), (up, ChangeSetText (Up m))]"
    by (simp add: migration_files_def lp_def dp_def up_def)
  have run: "Generate env g m w = createFiles env (migration_files env g m t) w0"
    using assms(1) by (simp add: Generate_writes t_def w0_def)
  have w0: "files w0 = files w" "fs_log w0 = fs_log w"
    by (simp_all add: w0_def printMigrationInfo_keeps)
  have "list_all (file_ok env) (migration_files env g m t)"
    using createFiles_None [of env "migration_files env g m t" w0] assms(2) run by simp
  then obtain l d u where ok:
    "schema_MarshalText env (Lock m) = Inr l" "changes_MarshalText env (Down m) = Inr d"
    "changes_MarshalText env (Up m) = Inr u"
    "open_fails env lp = None" "write_fails env lp = None"
    "open_fails env dp = None" "write_fails env dp = None"
    "open_fails env up = None" "write_fails env up = None"
    unfolding fs
    by (cases "schema_MarshalText env (Lock m)"; cases "changes_MarshalText env (Down m)";
        cases "changes_MarshalText env (Up m)") (auto simp: file_ok_def)
  have res: "createFiles env (migration_files env g m t) w0 =
      (None, w0\<lparr>files := (files w0)(lp \<mapsto> l, dp \<mapsto> d, up \<mapsto> u),
               fs_log := fs_log w0 @ [Opened lp, Wrote lp l, Opened dp, Wrote dp d,
                                      Opened up, Wrote up u]\<rparr>)"
    unfolding fs by (simp add: createFile_cases ok)
  have "\<exists>lock down up'.
     schema_MarshalText env (Lock m) = Inr lock \<and>
     changes_MarshalText env (Down m) = Inr down \<and>
     changes_MarshalText env (Up m) = Inr up' \<and>
     events_since w (snd (Generate env g m w)) =
       [Opened lp, Wrote lp lock, Opened dp, Wrote dp down, Opened up, Wrote up up'] \<and>
     files (snd (Generate env g m w)) = (files w)(lp \<mapsto> lock, dp \<mapsto> down, up \<mapsto> up')"
    using ok(1,2,3) res run w0 by (simp add: events_since_def)
  then show ?thesis
    using migration_paths_distinct [of env g t]
    unfolding lp_def dp_def up_def t_def by blast
qed

theorem Generate_three_artifacts_witness:
  "Up example_migration \<noteq> [] \<and>
   fst (Generate example_env example_generator example_migration empty_world) = None \<and>
   events_since empty_world
     (snd (Generate example_env example_generator example_migration empty_world)) =
     [Opened ''migrations/lock.json'', Wrote ''migrations/lock.json'' ''{users}'',
      Opened ''migrations/1500000000_add_users.down.sql'',
      Wrote ''migrations/1500000000_add_users.down.sql'' '';'',
      Opened ''migrations/1500000000_add_users.up.sql'',
      Wrote ''migrations/1500000000_add_users.up.sql'' '';'']"
proof -
  have h1: "Up example_migration \<noteq> []"
    by (simp add: example_migration_def)
  have h2: "fst (Generate example_env example_generator example_migration empty_world) = None"
    by (simp add: example_Generate)
  show ?thesis
    using Generate_three_artifacts [OF h1 h2] h1 h2
    by (simp add: example_Generate events_since_def empty_world_sel)
qed

subsection \<open>C5: a corrupt lock file\<close>

text \<open>
  C5. If the lock file exists and its contents cannot be parsed, LoadLock returns an
  error and no snapshot: the parse error with its prefix when the file could be read,
  the read error otherwise.
\<close>

theorem LoadLock_corrupt:
  "files w (filepath_Join env (dir g) migrationLock) = Some bytes \<Longrightarrow>
   json_Unmarshal env bytes = Inl err \<Longrightarrow>
     LoadLock env g w =
       Inl (Err (case read_fails env (filepath_Join env (dir g) migrationLock) of
                   Some msg \<Rightarrow> ''error opening lock file: '' @ msg
                 | None \<Rightarrow> ''error unmarshaling lock schema: '' @ Error err))"
  by (simp add: LoadLock_def ReadFile_def split: option.splits)

theorem LoadLock_corrupt_witness:
  "files corrupt_world (filepath_Join example_env (dir example_generator) migrationLock) =
     Some ''{'' \<and>
   json_Unmarshal example_env ''{'' = Inl (Err ''unexpected end of JSON input'') \<and>
   LoadLock example_env example_generator corrupt_world =
     Inl (Err ''error unmarshaling lock schema: unexpected end of JSON input'')"
proof -
  have h1: "files corrupt_world (filepath_Join example_env (dir example_generator) migrationLock) =
      Some ''{''"
    by (simp add: corrupt_world_def example_env_sel example_generator_eq migrationLock_def)
  have h2: "json_Unmarshal example_env ''{'' = Inl (Err ''unexpected end of JSON input'')"
    by (simp add: example_env_sel)
  show ?thesis
    using LoadLock_corrupt [OF h1 h2] h1 h2 by (simp add: example_env_sel)
qed

subsection \<open>C6: the slug\<close>

text \<open>
  C6. For every migration name the slug holds only characters of \<^verbatim>\<open>[a-z0-9_]\<close>, so it
  is lowercase. It is the name read rune by rune after lowercasing: a letter \<^verbatim>\<open>a-z\<close>
  or a digit is kept, a space, an underscore or a hyphen gives one underscore, every
  other rune is dropped. In particular every ASCII byte of the name gives its own part
  of the slug wherever it stands: an upper-case letter its lower-case letter, a
  lower-case letter or digit itself, each space, underscore or hyphen one underscore,
  any other ASCII byte nothing.
\<close>

theorem slugify_charset:
  "list_all slug_char (slugify t s) \<and>
   slugify t s = concat (map slug_rune (ToLower_runes t s)) \<and>
   ((of_char c :: nat) < 0x80 \<longrightarrow>
      slugify t (s1 @ c # s2) = slugify t s1 @ slug_byte c @ slugify t s2) \<and>
   (c = CHR '' '' \<or> c = CHR ''_'' \<or> c = CHR ''-'' \<longrightarrow>
      slugify t (s1 @ c # s2) = slugify t s1 @ ''_'' @ slugify t s2)"
proof -
  have "slugify t (s1 @ c # s2) = slugify t s1 @ ''_'' @ slugify t s2"
    if "c = CHR '' '' \<or> c = CHR ''_'' \<or> c = CHR ''-''"
  proof -
    have "(of_char c :: nat) < 0x80" and "slug_byte c = ''_''"
      using that by (auto simp: slug_byte_def)
    then show ?thesis
      using slugify_append_ascii [of c t s1 s2] by simp
  qed
  then show ?thesis
    using slugify_slug_chars slugify_concat slugify_append_ascii by blast
qed

theorem slugify_charset_witness:
  "list_all slug_char (slugify (\<lambda>r. r) ''Add Users-TABLE_x 9!'') \<and>
   slugify (\<lambda>r. r) ''Add Users-TABLE_x 9!'' = ''add_users_table_x_9''"
proof -
  note T = slugify_charset [of "\<lambda>r. r" "''Add Users-TABLE_x 9!''" "CHR ''-''"
      "''Add Users''" "''TABLE_x 9!''"]
  have h: "(of_char CHR ''-'' :: nat) < 0x80" by simp
  have e1: "slugify (\<lambda>r. r) ''Add Users'' = ''add_users''" by (simp add: slug_eval)
  have e2: "slugify (\<lambda>r. r) ''TABLE_x 9!'' = ''table_x_9''" by (simp add: slug_eval)
  have e3: "slug_byte CHR ''-'' = ''_''" by (simp add: slug_byte_def)
  have "slugify (\<lambda>r. r) (''Add Users'' @ CHR ''-'' # ''TABLE_x 9!'') =
        slugify (\<lambda>r. r) ''Add Users'' @ slug_byte CHR ''-'' @ slugify (\<lambda>r. r) ''TABLE_x 9!''"
    using T h by blast
  then have "slugify (\<lambda>r. r) ''Add Users-TABLE_x 9!'' = ''add_users_table_x_9''"
    by (simp add: e1 e2 e3)
  moreover have "list_all slug_char (slugify (\<lambda>r. r) ''Add Users-TABLE_x 9!'')"
    using T by blast
  ultimately show ?thesis by blast
qed

subsection \<open>C7: names of the script files\<close>

text \<open>
  C7. For every time \<open>t\<close> and migration name, the up script and the down script are one
  file each, named by the seconds since the epoch of \<open>t\<close> in decimal, an underscore, the
  slug of the name, and \<^verbatim>\<open>.up.sql\<close> or \<^verbatim>\<open>.down.sql\<close>, in the migrations directory.
\<close>

theorem migrationFile_names:
  "migrationFile env (NewMigrationGenerator env nm d) migrationUp t =
     filepath_Join env d
       (fmt_d (sint (Unix t)) @ ''_'' @ slugify (unicode_tables env) nm @ ''.up.sql'') \<and>
   migrationFile env (NewMigrationGenerator env nm d) migrationDown t =
     filepath_Join env d
       (fmt_d (sint (Unix t)) @ ''_'' @ slugify (unicode_tables env) nm @ ''.down.sql'') \<and>
   map fst (migration_files env (NewMigrationGenerator env nm d) m t) =
     [filepath_Join env d ''lock.json'',
      migrationFile env (NewMigrationGenerator env nm d) migrationDown t,
      migrationFile env (NewMigrationGenerator env nm d) migrationUp t]"
  by (simp add: migration_files_def migrationFile_def NewMigrationGenerator_def
      migrationUp_def migrationDown_def migrationLock_def)

theorem migrationFile_names_witness:
  "migrationFile example_env (NewMigrationGenerator example_env ''Add Users'' ''migrations'')
     migrationUp (Time 1500000000) = ''migrations/1500000000_add_users.up.sql'' \<and>
   migrationFile example_env (NewMigrationGenerator example_env ''Add Users'' ''migrations'')
     migrationDown (Time 1500000000) = ''migrations/1500000000_add_users.down.sql''"
proof -
  have e: "slugify (\<lambda>r. r) ''Add Users'' = ''add_users''" by (simp add: slug_eval)
  show ?thesis
    using migrationFile_names [of example_env "''Add Users''" "''migrations''" "Time 1500000000"]
    by (simp add: example_env_sel e fmt_d_example)
qed

subsection \<open>C8: a write that fails\<close>

text \<open>
  C8. Let the files of a migration with a non-empty Up list be written in their order,
  let all before the file at \<open>p\<close> succeed, and let opening or writing \<open>p\<close> fail. Then
  Generate returns an error whose message names \<open>p\<close> after the words that say whether
  opening or writing failed, the files before \<open>p\<close> are the only ones written, and no
  file after \<open>p\<close> is opened.
\<close>

theorem Generate_write_failure:
  assumes "Up m \<noteq> []"
    and "migration_files env g m (now g (clock_reads w)) = pre @ (p, c) # post"
    and "list_all (file_ok env) pre"
    and "MarshalText env c = Inr data"
    and "open_fails env p \<noteq> None \<or> write_fails env p \<noteq> None"
  shows "\<exists>msg oserr.
     fst (Generate env g m w) = Some (Err msg) \<and>
     (msg = ''error opening file: '' @ p @ '': '' @ oserr \<or>
      msg = ''error writing file: '' @ p @ '': '' @ oserr) \<and>
     written_paths (events_since w (snd (Generate env g m w))) = map fst pre \<and>
     prefix (opened_paths (events_since w (snd (Generate env g m w)))) (map fst pre @ [p])"
proof -
  define w0 where "w0 = (printMigrationInfo env m w)\<lparr>clock_reads := Suc (clock_reads w)\<rparr>"
  have run: "Generate env g m w = createFiles env (pre @ (p, c) # post) w0"
    using assms(1,2) by (simp add: Generate_writes w0_def)
  have w0: "fs_log w0 = fs_log w"
    by (simp add: w0_def printMigrationInfo_keeps)
  obtain evs w1 where pre: "fs_log w1 = fs_log w0 @ evs" "opened_paths evs = map fst pre"
    "written_paths evs = map fst pre"
    "createFiles env (pre @ (p, c) # post) w0 = createFiles env ((p, c) # post) w1"
    using createFiles_ok_prefix [OF assms(3), of w0] by blast
  show ?thesis
  proof (cases "open_fails env p")
    case (Some oserr)
    then have "createFile env p c w1 =
        (Some (Err (''error opening file: '' @ p @ '': '' @ oserr)), w1)"
      using assms(4) by (simp add: createFile_cases)
    then have "Generate env g m w =
        (Some (Err (''error opening file: '' @ p @ '': '' @ oserr)), w1)"
      using run pre(4) by simp
    then show ?thesis
      using pre(1,2,3) w0 by (simp add: events_since_def)
  next
    case None
    then obtain n oserr where wf: "write_fails env p = Some (n, oserr)"
      using assms(5) by auto
    have "createFile env p c w1 =
        (Some (Err (''error writing file: '' @ p @ '': '' @ oserr)),
         w1\<lparr>files := (files w1)(p \<mapsto> take n data),
            fs_log := fs_log w1 @ [Opened p, WriteFailed p (take n data)]\<rparr>)"
      using assms(4) None wf by (simp add: createFile_cases)
    then have "Generate env g m w =
        (Some (Err (''error writing file: '' @ p @ '': '' @ oserr)),
         w1\<lparr>files := (files w1)(p \<mapsto> take n data),
            fs_log := fs_log w1 @ [Opened p, WriteFailed p (take n data)]\<rparr>)"
      using run pre(4) by simp
    then show ?thesis
      using pre(1,2,3) w0
      by (simp add: events_since_def opened_paths_append written_paths_append)
  qed
qed

theorem Generate_write_failure_witness:
  "Up example_migration \<noteq> [] \<and>
   list_all (file_ok failing_env)
     [(''migrations/lock.json'', SchemaText (DBSchema [(''users'', ())]))] \<and>
   open_fails failing_env ''migrations/1500000000_add_users.down.sql'' = Some ''permission denied'' \<and>
   fst (Generate failing_env example_generator example_migration empty_world) =
     Some (Err ''error opening file: migrations/1500000000_add_users.down.sql: permission denied'') \<and>
   written_paths (events_since empty_world
     (snd (Generate failing_env example_generator example_migration empty_world))) =
     [''migrations/lock.json'']"
proof -
  have h1: "Up example_migration \<noteq> []"
    by (simp add: example_migration_def)
  have h2: "migration_files failing_env example_generator example_migration
      (now example_generator (clock_reads empty_world)) =
      [(''migrations/lock.json'', SchemaText (DBSchema [(''users'', ())]))] @
      (''migrations/1500000000_add_users.down.sql'', ChangeSetText [DropTable ''users'']) #
      [(''migrations/1500000000_add_users.up.sql'', ChangeSetText [CreateTable ''users''])]"
    by (simp add: example_now failing_files)
  have h3: "list_all (file_ok failing_env)
      [(''migrations/lock.json'', SchemaText (DBSchema [(''users'', ())]))]"
    by (simp add: file_ok_def failing_env_sel)
  have h4: "MarshalText failing_env (ChangeSetText [DropTable ''users'']) = Inr '';''"
    by (simp add: failing_env_sel)
  have h5: "open_fails failing_env ''migrations/1500000000_add_users.down.sql'' \<noteq> None \<or>
      write_fails failing_env ''migrations/1500000000_add_users.down.sql'' \<noteq> None"
    by (simp add: failing_env_sel)
  show ?thesis
    using Generate_write_failure [OF h1 h2 h3 h4 h5] h1 h3
    by (simp add: failing_Generate events_since_def empty_world_sel failing_env_sel)
qed

subsection \<open>C9: one timestamp per run\<close>

text \<open>
  C9. One run of writeMigration reads the clock exactly once, and the files it opens are,
  in this order, the lock, the down script and the up script whose names start with the
  same timestamp and slug.
\<close>

theorem writeMigration_one_timestamp:
  "clock_reads (snd (writeMigration env g m w)) = Suc (clock_reads w) \<and>
   prefix (opened_paths (events_since w (snd (writeMigration env g m w))))
     [filepath_Join env (dir g) ''lock.json'',
      filepath_Join env (dir g)
        ((fmt_d (sint (Unix (now g (clock_reads w)))) @ ''_'' @ name g) @ ''.down.sql''),
      filepath_Join env (dir g)
        ((fmt_d (sint (Unix (now g (clock_reads w)))) @ ''_'' @ name g) @ ''.up.sql'')]"
proof -
  define t where "t = now g (clock_reads w)"
  define w0 where "w0 = w\<lparr>clock_reads := Suc (clock_reads w)\<rparr>"
  have run: "writeMigration env g m w = createFiles env (migration_files env g m t) w0"
    by (simp add: writeMigration_def t_def w0_def Let_def)
  obtain evs where evs:
    "fs_log (snd (createFiles env (migration_files env g m t) w0)) = fs_log w0 @ evs"
    "prefix (opened_paths evs) (map fst (migration_files env g m t))"
    using createFiles_order [of env "migration_files env g m t" w0] by blast
  have "events_since w (snd (writeMigration env g m w)) = evs"
    using evs(1) run by (simp add: events_since_def w0_def)
  moreover have "clock_reads (snd (writeMigration env g m w)) = Suc (clock_reads w)"
    using createFiles_keeps [of env "migration_files env g m t" w0] run by (simp add: w0_def)
  ultimately show ?thesis
    using evs(2)
    by (simp add: t_def migration_files_def migrationFile_def migrationLock_def
        migrationDown_def migrationUp_def)
qed

theorem writeMigration_one_timestamp_witness:
  "clock_reads (snd (writeMigration example_env example_generator example_migration empty_world)) =
     Suc (clock_reads empty_world) \<and>
   opened_paths (events_since empty_world
     (snd (writeMigration example_env example_generator example_migration empty_world))) =
     [''migrations/lock.json'', ''migrations/1500000000_add_users.down.sql'',
      ''migrations/1500000000_add_users.up.sql'']"
  using writeMigration_one_timestamp [of example_env example_generator example_migration empty_world]
  by (simp add: example_writeMigration events_since_def empty_world_sel)

subsection \<open>C10: slugify is idempotent\<close>

text \<open>
  C10. slugify is idempotent: the slug of a slug is the slug itself.
\<close>

theorem slugify_idempotent: "slugify t (slugify t s) = slugify t s"
  by (rule slugify_fix) (rule slugify_slug_chars)

theorem slugify_idempotent_witness:
  "slugify (\<lambda>r. r) (slugify (\<lambda>r. r) ''Add Users'') = ''add_users''"
proof -
  have e: "slugify (\<lambda>r. r) ''Add Users'' = ''add_users''" by (simp add: slug_eval)
  show ?thesis
    using slugify_idempotent [of "\<lambda>r. r" "''Add Users''"] by (simp add: e)
qed

end
